theory Spec2Isabelle
  imports Main
begin

section \<open>The lws orchestrator (index.js)\<close>

text \<open>
  A shallow embedding of class \<open>Lws\<close> of \<^verbatim>\<open>src/index.js\<close>: the methods \<open>propagate\<close>,
  \<open>createServer\<close>, \<open>createServerEventStream\<close> and \<open>listen\<close>. A thrown \<open>Error\<close> is a
  value \<open>Inl (Error msg)\<close>; the effects of a method (listeners attached, factories
  instantiated, calls of \<open>server.listen\<close>, timers) are fields of an explicit \<open>world\<close>.
  Collaborators that are not part of \<^verbatim>\<open>index.js\<close> (\<open>load-module\<close>, \<open>byte-size\<close>, the server
  factories, the middleware stack class, \<open>util.getIPList\<close>) are parameters, collected in
  the record \<open>env\<close>. The options are the merged options, that is the value of \<open>options\<close>
  after \<open>util.deepMerge\<close> at the head of \<open>listen\<close>.
\<close>

subsection \<open>Data\<close>

datatype error = Error string

datatype middleware_spec = SpecName string | SpecClass nat

datatype middleware = Middleware nat

text \<open>
  Modelled from the spec: the stack class of \<^verbatim>\<open>lib/middleware-stack\<close>, which is not among
  the sources. The spec describes a validated stack as an ordered sequence of middleware
  instances, so an instance is an array of its own class (\<open>listen\<close> tests
  \<open>instanceof Stack\<close> on the result of \<open>arrayify\<close>, which can hold only for an array).

  The value of \<open>options.stack\<close> is undefined, an array of specifications, one
  specification that is not in an array, or an instance of the stack class.
\<close>

datatype stack_option =
    StackUndefined
  | StackArray "middleware_spec list"
  | StackSingle middleware_spec
  | StackValidated "middleware list"

record server_options =
  port :: int
  hostname :: "string option"
  maxConnections :: "int option"
  keepAliveTimeout :: "int option"
  https :: bool
  http2 :: bool
  key :: "string option"
  cert :: "string option"
  pfx :: "string option"
  server :: "string option"
  stack :: stack_option
  modulePrefix :: string
  moduleDir :: "string list"

text \<open>
  JavaScript truthiness of an optional string: \<open>undefined\<close> and the empty string are
  falsy. An option counts as set when it is truthy, which is what the conditions of
  \<open>createServer\<close> test.
\<close>

definition truthy :: "string option \<Rightarrow> bool" where
  "truthy s = (case s of None \<Rightarrow> False | Some v \<Rightarrow> v \<noteq> [])"

datatype factory = Base | Https | Http2 | UserSupplied nat

text \<open>What \<open>load-module\<close> returns: a function (a decorator of factory classes) or another value.\<close>

datatype loaded_module = ModuleFunction nat | ModuleOther

text \<open>
  The server handle a factory creates. \<open>addContext\<close> tells whether the property
  \<open>server.addContext\<close> is defined (it is on a TLS server); the other two fields are the
  properties \<open>listen\<close> may assign.
\<close>

record server_handle =
  addContext :: bool
  srv_maxConnections :: "int option"
  srv_keepAliveTimeout :: "int option"

record memory_usage =
  rss :: nat
  heapTotal :: nat
  heapUsed :: nat
  external :: nat
  other_fields :: "(string \<times> nat) list"

text \<open>The values of verbose events.\<close>

datatype payload =
    SocketProperties "nat option" string string
  | ErrPayload string
  | Undefined
  | IpList "string list"
  | MemUsage string string string string "(string \<times> nat) list"

type_synonym event = "string \<times> payload"

record env =
  builtinModules :: "string list"
  loadModule :: "string \<Rightarrow> string \<Rightarrow> string list \<Rightarrow> error + loaded_module"
  factory_create :: "factory \<Rightarrow> server_options \<Rightarrow> error + server_handle"
  Stack_from :: "middleware_spec list \<Rightarrow> server_options \<Rightarrow> error + middleware list"
  getMiddlewareFunctions :: "middleware list \<Rightarrow> server_options \<Rightarrow> error + nat list"
  byteSize :: "nat \<Rightarrow> string"
  getIPList :: "string list"

subsection \<open>Event emitters and \<open>propagate\<close>\<close>

text \<open>
  An emitter is identified by a number. Its listeners of the event \<open>verbose\<close> are kept
  in registration order. A listener is either the arrow function that \<open>propagate\<close>
  attaches, which emits on the aggregator, or a listener of the environment, which
  observes the event.
\<close>

type_synonym emitter = nat

datatype listener = Forward emitter | Observer nat

type_synonym listeners = "emitter \<Rightarrow> listener list"

definition propagate :: "emitter \<Rightarrow> emitter \<Rightarrow> listeners \<Rightarrow> listeners" where
  "propagate this from ls = ls(from := ls from @ [Forward this])"

text \<open>
  \<open>emitter.emit('verbose', key, value)\<close> calls the listeners one after the other, each
  call running to its end before the next. The result is the list of observations
  (observer, event) in the order they happen. A cycle of forwarders recurses without
  end in JavaScript; the model has fuel for the depth of nested \<open>emit\<close> calls and
  returns \<open>None\<close> when it is used up.
\<close>

fun emit :: "nat \<Rightarrow> listeners \<Rightarrow> emitter \<Rightarrow> string \<times> 'v \<Rightarrow> (nat \<times> string \<times> 'v) list option"
  and call_listeners ::
    "nat \<Rightarrow> listeners \<Rightarrow> listener list \<Rightarrow> string \<times> 'v \<Rightarrow> (nat \<times> string \<times> 'v) list option"
where
  "emit 0 ls e ev = None"
| "emit (Suc n) ls e ev = call_listeners n ls (ls e) ev"
| "call_listeners n ls [] ev = Some []"
| "call_listeners n ls (Observer ob # rest) ev =
     (case call_listeners n ls rest ev of
        None \<Rightarrow> None
      | Some later \<Rightarrow> Some ((ob, ev) # later))"
| "call_listeners n ls (Forward target # rest) ev =
     (case emit n ls target ev of
        None \<Rightarrow> None
      | Some obs \<Rightarrow>
          (case call_listeners n ls rest ev of
             None \<Rightarrow> None
           | Some later \<Rightarrow> Some (obs @ later)))"

text \<open>Emitting a sequence of events, one after the other.\<close>

fun emit_all :: "nat \<Rightarrow> listeners \<Rightarrow> emitter \<Rightarrow> (string \<times> 'v) list \<Rightarrow> (nat \<times> string \<times> 'v) list option"
where
  "emit_all n ls e [] = Some []"
| "emit_all n ls e (ev # evs) =
     (case emit n ls e ev of
        None \<Rightarrow> None
      | Some obs \<Rightarrow>
          (case emit_all n ls e evs of
             None \<Rightarrow> None
           | Some later \<Rightarrow> Some (obs @ later)))"

subsection \<open>The world\<close>

text \<open>
  The counters and registrations that \<open>createServerEventStream\<close> keeps in its closure:
  \<open>cId\<close> and \<open>requestId\<close>, the property \<open>id\<close> of each socket object and \<open>requestId\<close> of
  each request object, and for each socket object the payloads that were computed when
  its listeners were attached (one for every \<open>connection\<close> event that delivered it).
\<close>

record stream_state =
  cId :: nat
  requestId :: nat
  socket_ids :: "nat \<Rightarrow> nat option"
  request_ids :: "nat \<Rightarrow> nat option"
  registered :: "nat \<Rightarrow> payload list"

record timer =
  interval_ms :: nat
  unrefd :: bool

record world =
  verbose_listeners :: listeners
  instantiated :: "factory list"
  created :: "server_handle list"
  stream :: "stream_state option"
  app_use :: "nat list"
  listen_calls :: "(int \<times> string option) list"
  timers :: "timer list"

text \<open>The emitters of one \<open>listen\<close> call: the factory, the server and the stack.\<close>

definition factory_emitter :: emitter where "factory_emitter = 1"
definition server_emitter :: emitter where "server_emitter = 2"
definition stack_emitter :: emitter where "stack_emitter = 3"

subsection \<open>\<open>createServer\<close>\<close>

definition key_cert_error :: error where
  "key_cert_error = Error ''--key and --cert must always be supplied together.''"

definition https_pfx_error :: error where
  "https_pfx_error = Error ''please use one of --https or --pfx, not both.''"

definition builtin_error :: error where
  "builtin_error =
     Error ''please supply a third party module name to --server, not a node built-in module name''"

definition invalid_module_error :: error where
  "invalid_module_error = Error ''Invalid module supplied to --server, it should export a function.''"

text \<open>The two errors of the validation block: conflicting TLS options.\<close>

definition ConfigConflict :: "error set" where
  "ConfigConflict = {key_cert_error, https_pfx_error}"

text \<open>
  Lines 108 to 137: the validation and the choice of the factory class, the value of
  the variable \<open>ServerFactory\<close> at line 138. \<open>userFactory\<close> is the branch of a truthy
  \<open>options.server\<close>.
\<close>

definition userFactory :: "env \<Rightarrow> server_options \<Rightarrow> string \<Rightarrow> error + factory" where
  "userFactory en options name =
     (if name \<in> set (builtinModules en) then Inl builtin_error
      else
        (case loadModule en name (modulePrefix options) (moduleDir options) of
           Inl e \<Rightarrow> Inl e
         | Inr (ModuleFunction f) \<Rightarrow> Inr (UserSupplied f)
         | Inr ModuleOther \<Rightarrow> Inl invalid_module_error))"

definition selectFactory :: "env \<Rightarrow> server_options \<Rightarrow> error + factory" where
  "selectFactory en options =
     (if (truthy (key options) \<and> \<not> truthy (cert options))
         \<or> (\<not> truthy (key options) \<and> truthy (cert options))
      then Inl key_cert_error
      else if https options \<and> truthy (pfx options) then Inl https_pfx_error
      else if https options
           \<or> (\<not> http2 options
               \<and> ((truthy (key options) \<and> truthy (cert options)) \<or> truthy (pfx options)))
        then Inr Https
      else if http2 options then Inr Http2
      else
        (case server options of
           None \<Rightarrow> Inr Base
         | Some name \<Rightarrow> if name = [] then Inr Base else userFactory en options name))"

definition createServer ::
  "env \<Rightarrow> emitter \<Rightarrow> server_options \<Rightarrow> world \<Rightarrow> (error + server_handle) \<times> world" where
  "createServer en this options w =
     (case selectFactory en options of
        Inl e \<Rightarrow> (Inl e, w)
      | Inr fac \<Rightarrow>
          (let w1 = w\<lparr>instantiated := instantiated w @ [fac]\<rparr>;
               w2 = w1\<lparr>verbose_listeners := propagate this factory_emitter (verbose_listeners w1)\<rparr>
           in case factory_create en fac options of
                Inl e \<Rightarrow> (Inl e, w2)
              | Inr srv \<Rightarrow> (Inr srv, w2\<lparr>created := created w2 @ [srv]\<rparr>)))"

subsection \<open>\<open>createServerEventStream\<close>\<close>

text \<open>
  A socket object as a listener sees it when an event fires: which object it is, and
  its counters at that time.
\<close>

record socket =
  sock_ref :: nat
  bytesRead :: nat
  bytesWritten :: nat

datatype socket_event =
  Connect | Data | Drain | Timeout | SocketClose | SocketError string | End | Lookup

text \<open>
  The events of the server that \<open>createServerEventStream\<close> listens to, and the events
  of a socket that its \<open>connection\<close> listener listens to.
\<close>

datatype server_event =
    Connection socket
  | OnSocket socket socket_event
  | ServerClose
  | Request nat
  | Listening

definition initial_stream :: stream_state where
  "initial_stream =
     \<lparr>cId = 1, requestId = 1, socket_ids = (\<lambda>_. None), request_ids = (\<lambda>_. None),
      registered = (\<lambda>_. [])\<rparr>"

definition socketProperties :: "env \<Rightarrow> stream_state \<Rightarrow> socket \<Rightarrow> payload" where
  "socketProperties en st s =
     SocketProperties (socket_ids st (sock_ref s))
       (byteSize en (bytesRead s)) (byteSize en (bytesWritten s))"

text \<open>
  One set of socket listeners, as lines 166 to 183 attach them. \<open>captured\<close> is the value
  of \<open>socketProperties(socket, cId)\<close> computed when the listeners of \<open>connect\<close>, \<open>end\<close>
  and \<open>lookup\<close> were built; the other listeners compute the properties of \<open>this\<close> when
  they run.
\<close>

fun socket_listener :: "env \<Rightarrow> stream_state \<Rightarrow> socket \<Rightarrow> payload \<Rightarrow> socket_event \<Rightarrow> event" where
  "socket_listener en st s captured Connect = (''server.socket.connect'', captured)"
| "socket_listener en st s captured Data = (''server.socket.data'', socketProperties en st s)"
| "socket_listener en st s captured Drain = (''server.socket.drain'', socketProperties en st s)"
| "socket_listener en st s captured Timeout = (''server.socket.timeout'', socketProperties en st s)"
| "socket_listener en st s captured SocketClose = (''server.socket.close'', socketProperties en st s)"
| "socket_listener en st s captured (SocketError err) = (''server.socket.error'', ErrPayload err)"
| "socket_listener en st s captured End = (''server.socket.end'', captured)"
| "socket_listener en st s captured Lookup = (''server.socket.connect'', captured)"

text \<open>Decimal digits of a number, as a template literal prints \<open>options.port\<close>.\<close>

fun string_of_nat :: "nat \<Rightarrow> string" where
  "string_of_nat n =
     (if n < 10 then [''0123456789'' ! n]
      else string_of_nat (n div 10) @ [''0123456789'' ! (n mod 10)])"

declare string_of_nat.simps [simp del]

definition string_of_int :: "int \<Rightarrow> string" where
  "string_of_int i = (if i < 0 then ''-'' @ string_of_nat (nat (- i)) else string_of_nat (nat i))"

definition url :: "bool \<Rightarrow> string \<Rightarrow> int \<Rightarrow> string" where
  "url isSecure host p =
     (if isSecure then ''https'' else ''http'') @ ''://'' @ host @ '':'' @ string_of_int p"

text \<open>The list the \<open>listening\<close> listener builds, lines 196 to 203.\<close>

definition ipList :: "env \<Rightarrow> server_handle \<Rightarrow> server_options \<Rightarrow> string list" where
  "ipList en srv options =
     (let isSecure = addContext srv in
        if truthy (hostname options)
        then [url isSecure (case hostname options of Some h \<Rightarrow> h | None \<Rightarrow> []) (port options)]
        else map (\<lambda>address. url isSecure address (port options)) (getIPList en))"

text \<open>
  What the listeners do on one event: the new state of the closure and the verbose
  events emitted on the server, in order.
\<close>

fun on_event ::
  "env \<Rightarrow> server_handle \<Rightarrow> server_options \<Rightarrow> stream_state \<Rightarrow> server_event
     \<Rightarrow> stream_state \<times> event list" where
  "on_event en srv options st (Connection s) =
     (let st1 = st\<lparr>socket_ids := (socket_ids st)(sock_ref s := Some (cId st)), cId := cId st + 1\<rparr>;
          captured = socketProperties en st1 s;
          st2 = st1\<lparr>registered :=
                  (registered st1)(sock_ref s := registered st1 (sock_ref s) @ [captured])\<rparr>
      in (st2, [(''server.socket.new'', socketProperties en st1 s)]))"
| "on_event en srv options st (OnSocket s ev) =
     (st, map (\<lambda>captured. socket_listener en st s captured ev) (registered st (sock_ref s)))"
| "on_event en srv options st ServerClose = (st, [(''server.close'', Undefined)])"
| "on_event en srv options st (Request r) =
     (st\<lparr>request_ids := (request_ids st)(r := Some (requestId st)), requestId := requestId st + 1\<rparr>,
      [])"
| "on_event en srv options st Listening = (st, [(''server.listening'', IpList (ipList en srv options))])"

fun run ::
  "env \<Rightarrow> server_handle \<Rightarrow> server_options \<Rightarrow> stream_state \<Rightarrow> server_event list
     \<Rightarrow> stream_state \<times> event list" where
  "run en srv options st [] = (st, [])"
| "run en srv options st (e # es) =
     (case on_event en srv options st e of
        (st1, out1) \<Rightarrow>
          (case run en srv options st1 es of (st2, out2) \<Rightarrow> (st2, out1 @ out2)))"

definition createServerEventStream :: "world \<Rightarrow> world" where
  "createServerEventStream w = w\<lparr>stream := Some initial_stream\<rparr>"

subsection \<open>\<open>listen\<close>\<close>

text \<open>
  \<open>arrayify\<close> of the package \<open>array-back\<close>: undefined becomes the empty array, an array
  (also an instance of the stack class) is returned as it is, another value becomes an
  array of one element.
\<close>

fun arrayify :: "stack_option \<Rightarrow> stack_option" where
  "arrayify StackUndefined = StackArray []"
| "arrayify (StackSingle x) = StackArray [x]"
| "arrayify (StackArray xs) = StackArray xs"
| "arrayify (StackValidated ms) = StackValidated ms"

definition specs_of :: "stack_option \<Rightarrow> middleware_spec list" where
  "specs_of v = (case v of StackArray specs \<Rightarrow> specs | _ \<Rightarrow> [])"

text \<open>
  Lines 61 to 68: the new value of \<open>options\<close>, in which \<open>options.stack\<close> is a validated
  stack, or the error of \<open>Stack.from\<close>. The test is \<open>options.stack instanceof Stack\<close>.
\<close>

definition validate_stack :: "env \<Rightarrow> server_options \<Rightarrow> error + server_options" where
  "validate_stack en options =
     (let options1 = options\<lparr>stack := arrayify (stack options)\<rparr> in
        case stack options1 of
          StackValidated ms \<Rightarrow> Inr options1
        | _ \<Rightarrow>
            (case Stack_from en (specs_of (stack options1)) options1 of
               Inl e \<Rightarrow> Inl e
             | Inr ms \<Rightarrow> Inr (options1\<lparr>stack := StackValidated ms\<rparr>)))"

definition stack_of :: "server_options \<Rightarrow> middleware list" where
  "stack_of options = (case stack options of StackValidated ms \<Rightarrow> ms | _ \<Rightarrow> [])"

definition tune :: "server_options \<Rightarrow> server_handle \<Rightarrow> server_handle" where
  "tune options srv =
     (let srv1 = (case maxConnections options of
                    Some m \<Rightarrow> srv\<lparr>srv_maxConnections := Some m\<rparr> | None \<Rightarrow> srv)
      in case keepAliveTimeout options of
           Some k \<Rightarrow> srv1\<lparr>srv_keepAliveTimeout := Some k\<rparr> | None \<Rightarrow> srv1)"

definition memory_timer :: timer where
  "memory_timer = \<lparr>interval_ms = 60000, unrefd = True\<rparr>"

text \<open>The value the timer's callback emits, from the value of \<open>process.memoryUsage()\<close>.\<close>

definition memoryUsage_event :: "env \<Rightarrow> memory_usage \<Rightarrow> event" where
  "memoryUsage_event en m =
     (''process.memoryUsage'',
      MemUsage (byteSize en (rss m)) (byteSize en (heapTotal m)) (byteSize en (heapUsed m))
        (byteSize en (external m)) (other_fields m))"

definition memory_timer_callback ::
  "nat \<Rightarrow> env \<Rightarrow> emitter \<Rightarrow> world \<Rightarrow> memory_usage \<Rightarrow> (nat \<times> event) list option" where
  "memory_timer_callback n en this w m = emit n (verbose_listeners w) this (memoryUsage_event en m)"

definition listen ::
  "env \<Rightarrow> emitter \<Rightarrow> server_options \<Rightarrow> world \<Rightarrow> (error + server_handle) \<times> world" where
  "listen en this options w =
     (case createServer en this options w of
        (Inl e, w1) \<Rightarrow> (Inl e, w1)
      | (Inr srv0, w1) \<Rightarrow>
          (let srv = tune options srv0;
               w2 = createServerEventStream w1;
               w3 = w2\<lparr>verbose_listeners := propagate this server_emitter (verbose_listeners w2)\<rparr>
           in case validate_stack en options of
                Inl e \<Rightarrow> (Inl e, w3)
              | Inr options1 \<Rightarrow>
                  (let w4 = w3\<lparr>verbose_listeners :=
                                propagate this stack_emitter (verbose_listeners w3)\<rparr>
                   in case getMiddlewareFunctions en (stack_of options1) options1 of
                        Inl e \<Rightarrow> (Inl e, w4)
                      | Inr middlewares \<Rightarrow>
                          (let w5 = w4\<lparr>app_use := app_use w4 @ middlewares\<rparr>;
                               w6 = w5\<lparr>listen_calls :=
                                       listen_calls w5 @ [(port options1, hostname options1)]\<rparr>;
                               w7 = w6\<lparr>timers := timers w6 @ [memory_timer]\<rparr>
                           in (Inr srv, w7)))))"

section \<open>Vocabulary of the properties\<close>

text \<open>
  Which events of the server deliver a socket or a request, and the socket ids that the
  emitted \<open>server.socket.new\<close> events carry, in order of emission.
\<close>

fun is_connection :: "server_event \<Rightarrow> bool" where
  "is_connection (Connection s) = True"
| "is_connection _ = False"

fun is_request :: "server_event \<Rightarrow> bool" where
  "is_request (Request r) = True"
| "is_request _ = False"

fun new_socket_ids :: "event list \<Rightarrow> nat option list" where
  "new_socket_ids [] = []"
| "new_socket_ids ((k, SocketProperties i r w) # evs) =
     (if k = ''server.socket.new'' then i # new_socket_ids evs else new_socket_ids evs)"
| "new_socket_ids (_ # evs) = new_socket_ids evs"

text \<open>
  The \<open>connection\<close> events that deliver the socket object \<open>x\<close>, and the \<open>request\<close> events
  of the request object \<open>y\<close>.
\<close>

fun delivers :: "nat \<Rightarrow> server_event \<Rightarrow> bool" where
  "delivers x (Connection s) = (sock_ref s = x)"
| "delivers x _ = False"

fun requests :: "nat \<Rightarrow> server_event \<Rightarrow> bool" where
  "requests y (Request r) = (r = y)"
| "requests y _ = False"

text \<open>
  Concrete collaborators and inputs on which the theorems are evaluated: the default
  options of \<open>listen\<close> (port 8000, module prefix \<open>lws-\<close>), a resolver that finds every
  middleware but the one named \<open>missing\<close>, two network interfaces, and servers without
  and with a TLS context.
\<close>

definition default_options :: server_options where
  "default_options =
     \<lparr>port = 8000, hostname = None, maxConnections = None, keepAliveTimeout = None,
      https = False, http2 = False, key = None, cert = None, pfx = None, server = None,
      stack = StackUndefined, modulePrefix = ''lws-'', moduleDir = []\<rparr>"

definition example_env :: env where
  "example_env =
     \<lparr>builtinModules = [''http'', ''https'', ''net''],
      loadModule = (\<lambda>name prefix paths. Inl (Error ''module not found'')),
      factory_create = (\<lambda>fac options.
        Inr \<lparr>addContext = (fac = Https), srv_maxConnections = None, srv_keepAliveTimeout = None\<rparr>),
      Stack_from = (\<lambda>specs options.
        if SpecName ''missing'' \<in> set specs then Inl (Error ''module not found: missing'')
        else Inr (map (\<lambda>_. Middleware 0) specs)),
      getMiddlewareFunctions = (\<lambda>ms options. Inr (map (\<lambda>_. 0) ms)),
      byteSize = (\<lambda>n. string_of_nat n @ '' B''),
      getIPList = [''10.0.0.1'', ''192.168.1.1'']\<rparr>"

definition plain_server :: server_handle where
  "plain_server = \<lparr>addContext = False, srv_maxConnections = None, srv_keepAliveTimeout = None\<rparr>"

definition tls_server :: server_handle where
  "tls_server = \<lparr>addContext = True, srv_maxConnections = None, srv_keepAliveTimeout = None\<rparr>"

definition empty_world :: world where
  "empty_world =
     \<lparr>verbose_listeners = (\<lambda>_. []), instantiated = [], created = [], stream = None,
      app_use = [], listen_calls = [], timers = []\<rparr>"

section \<open>Factory selection\<close>

text \<open>When the HTTPS factory is chosen, for all options.\<close>

lemma selectFactory_Https_iff:
  "selectFactory en options = Inr Https \<longleftrightarrow>
     (truthy (key options) = truthy (cert options))
     \<and> \<not> (https options \<and> truthy (pfx options))
     \<and> (https options
        \<or> (\<not> http2 options
           \<and> ((truthy (key options) \<and> truthy (cert options)) \<or> truthy (pfx options))))"
  by (auto simp: selectFactory_def userFactory_def
      split: option.splits sum.splits loaded_module.splits)

text \<open>
  Claim C1, as amended. For all options that pass the validation of \<open>createServer\<close> (\<open>key\<close>
  and \<open>cert\<close> both set or both unset, and not both \<open>https\<close> and \<open>pfx\<close>), the HTTPS factory is
  chosen, and it is the factory instantiated, exactly when \<open>https\<close> is true, or \<open>http2\<close> is
  false and either both \<open>key\<close> and \<open>cert\<close> are set or \<open>pfx\<close> is set. In particular, with
  \<open>https\<close> true the HTTPS factory is chosen whatever the value of \<open>http2\<close>.
\<close>
theorem https_factory_selected_iff:
  assumes "truthy (key options) = truthy (cert options)"
    and "\<not> (https options \<and> truthy (pfx options))"
  shows "((selectFactory en options = Inr Https) =
           (https options \<or> (\<not> http2 options \<and>
              ((truthy (key options) \<and> truthy (cert options)) \<or> truthy (pfx options)))))
       \<and> ((instantiated (snd (createServer en this options w)) = instantiated w @ [Https]) =
           (https options \<or> (\<not> http2 options \<and>
              ((truthy (key options) \<and> truthy (cert options)) \<or> truthy (pfx options)))))
       \<and> (https options \<longrightarrow> selectFactory en (options\<lparr>http2 := b\<rparr>) = Inr Https)"
proof -
  let ?c = "https options \<or> (\<not> http2 options \<and>
              ((truthy (key options) \<and> truthy (cert options)) \<or> truthy (pfx options)))"
  have a: "(selectFactory en options = Inr Https) = ?c"
    using assms by (simp add: selectFactory_Https_iff)
  have b: "(instantiated (snd (createServer en this options w)) = instantiated w @ [Https]) = ?c"
    using a by (auto simp: createServer_def Let_def split: sum.splits)
  have c: "https options \<longrightarrow> selectFactory en (options\<lparr>http2 := b\<rparr>) = Inr Https"
    using assms by (simp add: selectFactory_Https_iff)
  show ?thesis using a b c by blast
qed

text \<open>The theorem at the default options with \<open>https\<close> switched on.\<close>
theorem https_factory_selected_iff_witness:
  "selectFactory example_env (default_options\<lparr>https := True\<rparr>) = Inr Https
   \<and> selectFactory example_env (default_options\<lparr>https := True, http2 := True\<rparr>) = Inr Https
   \<and> instantiated (snd (createServer example_env 0 (default_options\<lparr>https := True\<rparr>) empty_world))
       = [Https]"
proof -
  let ?o = "default_options\<lparr>https := True\<rparr>"
  have h1: "truthy (key ?o) = truthy (cert ?o)" by (simp add: default_options_def)
  have h2: "\<not> (https ?o \<and> truthy (pfx ?o))" by (simp add: default_options_def truthy_def)
  show ?thesis
    using https_factory_selected_iff [OF h1 h2, of example_env 0 empty_world True]
    by (simp add: empty_world_def)
qed

text \<open>
  Claim C1 as stated fails on options with \<open>https\<close> true and \<open>pfx\<close> set: the validation
  throws, and no factory is instantiated.
\<close>
theorem https_with_pfx_rejected:
  "https (default_options\<lparr>https := True, pfx := Some ''server.pfx''\<rparr>)
   \<and> selectFactory example_env (default_options\<lparr>https := True, pfx := Some ''server.pfx''\<rparr>)
       = Inl https_pfx_error
   \<and> instantiated (snd (createServer example_env 0
        (default_options\<lparr>https := True, pfx := Some ''server.pfx''\<rparr>) empty_world)) = []"
  by (simp add: selectFactory_def createServer_def default_options_def truthy_def empty_world_def)

text \<open>
  Claim C2. For all options in which exactly one of \<open>key\<close> and \<open>cert\<close> is set, or in which
  \<open>https\<close> is true and \<open>pfx\<close> is set, \<open>createServer\<close> throws one of the two errors of
  conflicting configuration. The world is returned as it was: no factory has been
  instantiated and no server created, whatever the collaborators are.
\<close>
theorem createServer_config_conflict:
  assumes "(truthy (key options) \<noteq> truthy (cert options)) \<or> (https options \<and> truthy (pfx options))"
  shows "createServer en this options w =
           (Inl (if truthy (key options) \<noteq> truthy (cert options) then key_cert_error
                 else https_pfx_error), w)
         \<and> (if truthy (key options) \<noteq> truthy (cert options) then key_cert_error
                 else https_pfx_error) \<in> ConfigConflict"
  using assms by (auto simp: createServer_def selectFactory_def ConfigConflict_def)

text \<open>The theorem on options with a key and no certificate, and with \<open>https\<close> and \<open>pfx\<close>.\<close>
theorem createServer_config_conflict_witness:
  "createServer example_env 0 (default_options\<lparr>key := Some ''key.pem''\<rparr>) empty_world
     = (Inl key_cert_error, empty_world)
   \<and> createServer example_env 0 (default_options\<lparr>https := True, pfx := Some ''server.pfx''\<rparr>)
       empty_world = (Inl https_pfx_error, empty_world)"
proof -
  let ?o1 = "default_options\<lparr>key := Some ''key.pem''\<rparr>"
  let ?o2 = "default_options\<lparr>https := True, pfx := Some ''server.pfx''\<rparr>"
  have h1: "(truthy (key ?o1) \<noteq> truthy (cert ?o1)) \<or> (https ?o1 \<and> truthy (pfx ?o1))"
    by (simp add: default_options_def truthy_def)
  have h2: "(truthy (key ?o2) \<noteq> truthy (cert ?o2)) \<or> (https ?o2 \<and> truthy (pfx ?o2))"
    by (simp add: default_options_def truthy_def)
  have k: "truthy (key ?o1) \<noteq> truthy (cert ?o1)" "truthy (key ?o2) = truthy (cert ?o2)"
    by (simp_all add: default_options_def truthy_def)
  show ?thesis
    using createServer_config_conflict [OF h1, of example_env 0 empty_world]
      createServer_config_conflict [OF h2, of example_env 0 empty_world] k
    by simp
qed

section \<open>The event stream\<close>

text \<open>The counters after a sequence of events.\<close>

lemma run_append:
  "run en srv options st (xs @ ys) =
     (case run en srv options st xs of
        (st1, out1) \<Rightarrow> (case run en srv options st1 ys of (st2, out2) \<Rightarrow> (st2, out1 @ out2)))"
  by (induction xs arbitrary: st) (auto split: prod.splits)

lemma cId_on_event:
  "cId (fst (on_event en srv options st e)) = cId st + (if is_connection e then 1 else 0)"
  by (cases e) (simp_all add: Let_def)

lemma requestId_on_event:
  "requestId (fst (on_event en srv options st e)) = requestId st + (if is_request e then 1 else 0)"
  by (cases e) (simp_all add: Let_def)

lemma cId_run:
  "cId (fst (run en srv options st tr)) = cId st + length (filter is_connection tr)"
proof (induction tr arbitrary: st)
  case Nil
  then show ?case by simp
next
  case (Cons e es)
  have "cId (fst (run en srv options st (e # es)))
          = cId (fst (run en srv options (fst (on_event en srv options st e)) es))"
    by (simp split: prod.splits)
  also have "\<dots> = cId (fst (on_event en srv options st e)) + length (filter is_connection es)"
    by (rule Cons.IH)
  finally show ?case by (simp add: cId_on_event)
qed

lemma requestId_run:
  "requestId (fst (run en srv options st tr)) = requestId st + length (filter is_request tr)"
proof (induction tr arbitrary: st)
  case Nil
  then show ?case by simp
next
  case (Cons e es)
  have "requestId (fst (run en srv options st (e # es)))
          = requestId (fst (run en srv options (fst (on_event en srv options st e)) es))"
    by (simp split: prod.splits)
  also have "\<dots> = requestId (fst (on_event en srv options st e)) + length (filter is_request es)"
    by (rule Cons.IH)
  finally show ?case by (simp add: requestId_on_event)
qed

lemma new_socket_ids_append:
  "new_socket_ids (xs @ ys) = new_socket_ids xs @ new_socket_ids ys"
  by (induction xs rule: new_socket_ids.induct) auto

lemma new_ids_on_event:
  "new_socket_ids (snd (on_event en srv options st e)) = (if is_connection e then [Some (cId st)] else [])"
proof (cases e)
  case (OnSocket s ev)
  have "new_socket_ids (map (\<lambda>captured. socket_listener en st s captured ev) cs) = []" for cs
  proof (induction cs)
    case Nil
    then show ?case by simp
  next
    case (Cons c cs)
    then show ?case by (cases ev; cases c) (simp_all add: socketProperties_def)
  qed
  then show ?thesis using OnSocket by simp
qed (simp_all add: Let_def socketProperties_def)

lemma new_ids_run:
  "new_socket_ids (snd (run en srv options st tr))
     = map Some [cId st ..< cId st + length (filter is_connection tr)]"
proof (induction tr arbitrary: st)
  case Nil
  then show ?case by simp
next
  case (Cons e es)
  obtain st1 out1 where e: "on_event en srv options st e = (st1, out1)" by fastforce
  obtain st2 out2 where r: "run en srv options st1 es = (st2, out2)" by fastforce
  have c: "cId st1 = cId st + (if is_connection e then 1 else 0)"
    using cId_on_event [of en srv options st e] e by simp
  have n: "new_socket_ids out1 = (if is_connection e then [Some (cId st)] else [])"
    using new_ids_on_event [of en srv options st e] e by simp
  have i: "new_socket_ids out2 = map Some [cId st1 ..< cId st1 + length (filter is_connection es)]"
    using Cons.IH [of st1] r by simp
  have s: "new_socket_ids (snd (run en srv options st (e # es))) = new_socket_ids out1 @ new_socket_ids out2"
    using e r by (simp add: new_socket_ids_append)
  show ?case
  proof (cases "is_connection e")
    case True
    have "[cId st ..< cId st + Suc (length (filter is_connection es))]
            = cId st # [Suc (cId st) ..< Suc (cId st) + length (filter is_connection es)]"
      by (subst upt_rec) simp
    then show ?thesis using True s i c n by simp
  next
    case False
    then show ?thesis using s i c n by simp
  qed
qed

lemma run_snoc:
  "run en srv options st (tr @ [e]) =
     (fst (on_event en srv options (fst (run en srv options st tr)) e),
      snd (run en srv options st tr) @ snd (on_event en srv options (fst (run en srv options st tr)) e))"
  by (simp add: run_append split: prod.splits)

lemma socket_ids_on_event:
  "socket_ids (fst (on_event en srv options st e)) =
     (case e of Connection s' \<Rightarrow> (socket_ids st)(sock_ref s' := Some (cId st)) | _ \<Rightarrow> socket_ids st)"
  by (cases e) (simp_all add: Let_def)

lemma request_ids_on_event:
  "request_ids (fst (on_event en srv options st e)) =
     (case e of Request r' \<Rightarrow> (request_ids st)(r' := Some (requestId st)) | _ \<Rightarrow> request_ids st)"
  by (cases e) (simp_all add: Let_def)

text \<open>
  An object keeps its id while it is not delivered again, and every successful \<open>listen\<close>
  starts an event stream of its own.
\<close>

lemma socket_ids_kept_on_event:
  "\<not> delivers x e \<Longrightarrow> socket_ids (fst (on_event en srv options st e)) x = socket_ids st x"
  by (cases e) (simp_all add: Let_def)

lemma request_ids_kept_on_event:
  "\<not> requests y e \<Longrightarrow> request_ids (fst (on_event en srv options st e)) y = request_ids st y"
  by (cases e) (simp_all add: Let_def)

lemma socket_ids_kept_run:
  "list_all (\<lambda>e. \<not> delivers x e) post \<Longrightarrow>
     socket_ids (fst (run en srv options st post)) x = socket_ids st x"
proof (induction post arbitrary: st)
  case Nil
  then show ?case by simp
next
  case (Cons e es)
  have "socket_ids (fst (run en srv options st (e # es))) x
          = socket_ids (fst (run en srv options (fst (on_event en srv options st e)) es)) x"
    by (simp split: prod.splits)
  also have "\<dots> = socket_ids (fst (on_event en srv options st e)) x"
    using Cons by simp
  also have "\<dots> = socket_ids st x"
    using Cons.prems by (simp add: socket_ids_kept_on_event)
  finally show ?case .
qed

lemma request_ids_kept_run:
  "list_all (\<lambda>e. \<not> requests y e) post \<Longrightarrow>
     request_ids (fst (run en srv options st post)) y = request_ids st y"
proof (induction post arbitrary: st)
  case Nil
  then show ?case by simp
next
  case (Cons e es)
  have "request_ids (fst (run en srv options st (e # es))) y
          = request_ids (fst (run en srv options (fst (on_event en srv options st e)) es)) y"
    by (simp split: prod.splits)
  also have "\<dots> = request_ids (fst (on_event en srv options st e)) y"
    using Cons by simp
  also have "\<dots> = request_ids st y"
    using Cons.prems by (simp add: request_ids_kept_on_event)
  finally show ?case .
qed

lemma run_fst_append:
  "fst (run en srv options st (xs @ ys)) = fst (run en srv options (fst (run en srv options st xs)) ys)"
  by (simp add: run_append split: prod.splits)

lemma listen_starts_stream:
  "fst (listen en this options w) = Inr srv \<Longrightarrow>
     stream (snd (listen en this options w)) = Some initial_stream"
  by (auto simp: listen_def Let_def createServerEventStream_def split: prod.splits sum.splits)

lemma listen_example_succeeds:
  "fst (listen example_env 0 default_options w) = Inr plain_server"
  by (simp add: listen_def createServer_def selectFactory_def default_options_def truthy_def
      example_env_def Let_def validate_stack_def specs_of_def stack_of_def tune_def
      plain_server_def)

text \<open>
  Claim C4, as amended. In one event stream, that is after one call of
  \<open>createServerEventStream\<close>, which starts both counters at 1, and after any sequence of
  events \<open>tr\<close>: the connection counter is 1 plus the number of \<open>connection\<close> events, the
  request counter is 1 plus the number of \<open>request\<close> events (each counter counts its own
  events only); the socket delivered next gets the id 1 plus the number of
  \<open>connection\<close> events before it, and likewise the next request; the ids carried by the
  \<open>server.socket.new\<close> events are 1, 2, 3, ... in order, so within the stream no id is
  given twice, also after sockets have closed; an event changes the id of a socket only
  if it is a \<open>connection\<close> event that delivers this socket, the id of a request only if it
  is a \<open>request\<close> event of this request; and an object keeps the id it was given through
  all later events of the stream that do not deliver it again.
\<close>
theorem ids_assigned_from_counters:
  "cId (fst (run en srv options initial_stream tr)) = 1 + length (filter is_connection tr)
   \<and> requestId (fst (run en srv options initial_stream tr)) = 1 + length (filter is_request tr)
   \<and> socket_ids (fst (run en srv options initial_stream (tr @ [Connection s]))) (sock_ref s)
        = Some (1 + length (filter is_connection tr))
   \<and> request_ids (fst (run en srv options initial_stream (tr @ [Request r]))) r
        = Some (1 + length (filter is_request tr))
   \<and> new_socket_ids (snd (run en srv options initial_stream tr))
        = map Some [1 ..< 1 + length (filter is_connection tr)]
   \<and> socket_ids (fst (on_event en srv options st e)) =
        (case e of Connection s' \<Rightarrow> (socket_ids st)(sock_ref s' := Some (cId st))
         | _ \<Rightarrow> socket_ids st)
   \<and> request_ids (fst (on_event en srv options st e)) =
        (case e of Request r' \<Rightarrow> (request_ids st)(r' := Some (requestId st))
         | _ \<Rightarrow> request_ids st)
   \<and> (list_all (\<lambda>e. \<not> delivers (sock_ref s) e) post \<longrightarrow>
        socket_ids (fst (run en srv options initial_stream (tr @ Connection s # post))) (sock_ref s)
          = Some (1 + length (filter is_connection tr)))
   \<and> (list_all (\<lambda>e. \<not> requests r e) post \<longrightarrow>
        request_ids (fst (run en srv options initial_stream (tr @ Request r # post))) r
          = Some (1 + length (filter is_request tr)))"
proof -
  have i: "cId initial_stream = 1" "requestId initial_stream = 1"
    by (simp_all add: initial_stream_def)
  have a: "cId (fst (run en srv options initial_stream tr)) = 1 + length (filter is_connection tr)"
    using cId_run [of en srv options initial_stream tr] i by simp
  have b: "requestId (fst (run en srv options initial_stream tr)) = 1 + length (filter is_request tr)"
    using requestId_run [of en srv options initial_stream tr] i by simp
  have c: "socket_ids (fst (run en srv options initial_stream (tr @ [Connection s]))) (sock_ref s)
             = Some (1 + length (filter is_connection tr))"
    using a by (simp add: run_snoc Let_def)
  have d: "request_ids (fst (run en srv options initial_stream (tr @ [Request r]))) r
             = Some (1 + length (filter is_request tr))"
    using b by (simp add: run_snoc)
  have f: "new_socket_ids (snd (run en srv options initial_stream tr))
             = map Some [1 ..< 1 + length (filter is_connection tr)]"
    using new_ids_run [of en srv options initial_stream tr] i by simp
  have g: "socket_ids (fst (run en srv options initial_stream (tr @ Connection s # post))) (sock_ref s)
          = Some (1 + length (filter is_connection tr))"
    if "list_all (\<lambda>e. \<not> delivers (sock_ref s) e) post"
  proof -
    have "tr @ Connection s # post = (tr @ [Connection s]) @ post" by simp
    then have "socket_ids (fst (run en srv options initial_stream (tr @ Connection s # post))) (sock_ref s)
        = socket_ids (fst (run en srv options
            (fst (run en srv options initial_stream (tr @ [Connection s]))) post)) (sock_ref s)"
      by (simp only: run_fst_append)
    also have "\<dots> = socket_ids (fst (run en srv options initial_stream (tr @ [Connection s]))) (sock_ref s)"
      using that by (rule socket_ids_kept_run)
    finally show ?thesis using c by simp
  qed
  have h: "request_ids (fst (run en srv options initial_stream (tr @ Request r # post))) r
          = Some (1 + length (filter is_request tr))"
    if "list_all (\<lambda>e. \<not> requests r e) post"
  proof -
    have "tr @ Request r # post = (tr @ [Request r]) @ post" by simp
    then have "request_ids (fst (run en srv options initial_stream (tr @ Request r # post))) r
        = request_ids (fst (run en srv options
            (fst (run en srv options initial_stream (tr @ [Request r]))) post)) r"
      by (simp only: run_fst_append)
    also have "\<dots> = request_ids (fst (run en srv options initial_stream (tr @ [Request r]))) r"
      using that by (rule request_ids_kept_run)
    finally show ?thesis using d by simp
  qed
  show ?thesis
    using a b c d f g h socket_ids_on_event [of en srv options st e]
      request_ids_on_event [of en srv options st e]
    by simp
qed

text \<open>
  Three sockets are opened and closed one after the other; the fourth socket gets id 4
  and keeps it, and the first request keeps id 1.
\<close>
theorem ids_assigned_from_counters_witness:
  "socket_ids (fst (run example_env plain_server default_options initial_stream
      [Connection \<lparr>sock_ref = 10, bytesRead = 0, bytesWritten = 0\<rparr>,
       OnSocket \<lparr>sock_ref = 10, bytesRead = 120, bytesWritten = 300\<rparr> SocketClose,
       Connection \<lparr>sock_ref = 11, bytesRead = 0, bytesWritten = 0\<rparr>,
       OnSocket \<lparr>sock_ref = 11, bytesRead = 80, bytesWritten = 20\<rparr> SocketClose,
       Connection \<lparr>sock_ref = 12, bytesRead = 0, bytesWritten = 0\<rparr>,
       OnSocket \<lparr>sock_ref = 12, bytesRead = 1, bytesWritten = 2\<rparr> SocketClose,
       Connection \<lparr>sock_ref = 13, bytesRead = 0, bytesWritten = 0\<rparr>,
       Request 77,
       OnSocket \<lparr>sock_ref = 13, bytesRead = 9, bytesWritten = 9\<rparr> Data])) 13 = Some 4
   \<and> new_socket_ids (snd (run example_env plain_server default_options initial_stream
      [Connection \<lparr>sock_ref = 10, bytesRead = 0, bytesWritten = 0\<rparr>,
       OnSocket \<lparr>sock_ref = 10, bytesRead = 120, bytesWritten = 300\<rparr> SocketClose,
       Connection \<lparr>sock_ref = 11, bytesRead = 0, bytesWritten = 0\<rparr>,
       OnSocket \<lparr>sock_ref = 11, bytesRead = 80, bytesWritten = 20\<rparr> SocketClose,
       Connection \<lparr>sock_ref = 12, bytesRead = 0, bytesWritten = 0\<rparr>,
       OnSocket \<lparr>sock_ref = 12, bytesRead = 1, bytesWritten = 2\<rparr> SocketClose]))
     = [Some 1, Some 2, Some 3]
   \<and> request_ids (fst (run example_env plain_server default_options initial_stream
      [Connection \<lparr>sock_ref = 10, bytesRead = 0, bytesWritten = 0\<rparr>,
       OnSocket \<lparr>sock_ref = 10, bytesRead = 120, bytesWritten = 300\<rparr> SocketClose,
       Connection \<lparr>sock_ref = 11, bytesRead = 0, bytesWritten = 0\<rparr>,
       OnSocket \<lparr>sock_ref = 11, bytesRead = 80, bytesWritten = 20\<rparr> SocketClose,
       Connection \<lparr>sock_ref = 12, bytesRead = 0, bytesWritten = 0\<rparr>,
       OnSocket \<lparr>sock_ref = 12, bytesRead = 1, bytesWritten = 2\<rparr> SocketClose,
       Request 77,
       Connection \<lparr>sock_ref = 13, bytesRead = 0, bytesWritten = 0\<rparr>,
       Request 78])) 77 = Some 1"
proof -
  let ?tr = "[Connection \<lparr>sock_ref = 10, bytesRead = 0, bytesWritten = 0\<rparr>,
       OnSocket \<lparr>sock_ref = 10, bytesRead = 120, bytesWritten = 300\<rparr> SocketClose,
       Connection \<lparr>sock_ref = 11, bytesRead = 0, bytesWritten = 0\<rparr>,
       OnSocket \<lparr>sock_ref = 11, bytesRead = 80, bytesWritten = 20\<rparr> SocketClose,
       Connection \<lparr>sock_ref = 12, bytesRead = 0, bytesWritten = 0\<rparr>,
       OnSocket \<lparr>sock_ref = 12, bytesRead = 1, bytesWritten = 2\<rparr> SocketClose]"
  let ?s = "\<lparr>sock_ref = 13, bytesRead = 0, bytesWritten = 0\<rparr>"
  let ?p1 = "[Request 77, OnSocket \<lparr>sock_ref = 13, bytesRead = 9, bytesWritten = 9\<rparr> Data]"
  let ?p2 = "[Connection ?s, Request 78]"
  have h1: "list_all (\<lambda>e. \<not> delivers (sock_ref ?s) e) ?p1" by simp
  have h2: "list_all (\<lambda>e. \<not> requests 77 e) ?p2" by simp
  have n: "new_socket_ids (snd (run example_env plain_server default_options initial_stream ?tr))
          = map Some [1 ..< 1 + length (filter is_connection ?tr)]"
    using ids_assigned_from_counters [of example_env plain_server default_options ?tr ?s 77] by blast
  have a: "socket_ids (fst (run example_env plain_server default_options initial_stream
          (?tr @ Connection ?s # ?p1))) (sock_ref ?s) = Some (1 + length (filter is_connection ?tr))"
    using ids_assigned_from_counters [of example_env plain_server default_options ?tr ?s 77 _ _ ?p1] h1 by blast
  have b: "request_ids (fst (run example_env plain_server default_options initial_stream
          (?tr @ Request 77 # ?p2))) 77 = Some (1 + length (filter is_request ?tr))"
    using ids_assigned_from_counters [of example_env plain_server default_options ?tr ?s 77 _ _ ?p2] h2 by blast
  have n': "new_socket_ids (snd (run example_env plain_server default_options initial_stream ?tr))
          = [Some 1, Some 2, Some 3]"
    using n by (simp add: upt_rec)
  have a': "socket_ids (fst (run example_env plain_server default_options initial_stream
          (?tr @ Connection ?s # ?p1))) 13 = Some 4"
    using a by simp
  have b': "request_ids (fst (run example_env plain_server default_options initial_stream
          (?tr @ Request 77 # ?p2))) 77 = Some 1"
    using b by simp
  show ?thesis using n' a' b' by simp
qed

text \<open>
  Claim C4 as stated fails in two ways. Every successful \<open>listen\<close> calls
  \<open>createServerEventStream\<close>, so a second \<open>listen\<close> in the same process starts a stream whose
  counters are at 1 again: the first socket of each stream gets id 1. And a socket object
  that two \<open>connection\<close> events deliver is given an id by each of them, first 1 and then 2.
\<close>
theorem ids_restart_in_second_stream:
  "fst (listen example_env 0 default_options empty_world) = Inr plain_server
   \<and> stream (snd (listen example_env 0 default_options empty_world)) = Some initial_stream
   \<and> fst (listen example_env 0 default_options
        (snd (listen example_env 0 default_options empty_world))) = Inr plain_server
   \<and> stream (snd (listen example_env 0 default_options
        (snd (listen example_env 0 default_options empty_world)))) = Some initial_stream
   \<and> new_socket_ids (snd (run example_env plain_server default_options initial_stream
        [Connection \<lparr>sock_ref = 10, bytesRead = 0, bytesWritten = 0\<rparr>,
         OnSocket \<lparr>sock_ref = 10, bytesRead = 120, bytesWritten = 300\<rparr> SocketClose])) = [Some 1]
   \<and> new_socket_ids (snd (run example_env plain_server default_options initial_stream
        [Connection \<lparr>sock_ref = 11, bytesRead = 0, bytesWritten = 0\<rparr>])) = [Some 1]
   \<and> new_socket_ids (snd (run example_env plain_server default_options initial_stream
        [Connection \<lparr>sock_ref = 10, bytesRead = 0, bytesWritten = 0\<rparr>,
         Connection \<lparr>sock_ref = 10, bytesRead = 0, bytesWritten = 0\<rparr>])) = [Some 1, Some 2]
   \<and> socket_ids (fst (run example_env plain_server default_options initial_stream
        [Connection \<lparr>sock_ref = 10, bytesRead = 0, bytesWritten = 0\<rparr>,
         Connection \<lparr>sock_ref = 10, bytesRead = 0, bytesWritten = 0\<rparr>])) 10 = Some 2"
proof -
  have a: "fst (listen example_env 0 default_options w) = Inr plain_server
           \<and> stream (snd (listen example_env 0 default_options w)) = Some initial_stream" for w
    using listen_example_succeeds [of w] listen_starts_stream by blast
  have b: "new_socket_ids (snd (run example_env plain_server default_options initial_stream
        [Connection \<lparr>sock_ref = 10, bytesRead = 0, bytesWritten = 0\<rparr>,
         OnSocket \<lparr>sock_ref = 10, bytesRead = 120, bytesWritten = 300\<rparr> SocketClose])) = [Some 1]"
    by (simp add: initial_stream_def Let_def socketProperties_def)
  have c: "new_socket_ids (snd (run example_env plain_server default_options initial_stream
        [Connection \<lparr>sock_ref = 11, bytesRead = 0, bytesWritten = 0\<rparr>])) = [Some 1]"
    by (simp add: initial_stream_def Let_def socketProperties_def)
  have d: "new_socket_ids (snd (run example_env plain_server default_options initial_stream
        [Connection \<lparr>sock_ref = 10, bytesRead = 0, bytesWritten = 0\<rparr>,
         Connection \<lparr>sock_ref = 10, bytesRead = 0, bytesWritten = 0\<rparr>])) = [Some 1, Some 2]"
    by (simp add: initial_stream_def Let_def socketProperties_def)
  have e: "socket_ids (fst (run example_env plain_server default_options initial_stream
        [Connection \<lparr>sock_ref = 10, bytesRead = 0, bytesWritten = 0\<rparr>,
         Connection \<lparr>sock_ref = 10, bytesRead = 0, bytesWritten = 0\<rparr>])) 10 = Some 2"
    by (simp add: initial_stream_def Let_def)
  show ?thesis using a b c d e by simp
qed

text \<open>
  Claim C10. The listener of the \<open>lookup\<close> event of a socket emits \<open>server.socket.connect\<close>,
  as the listener of \<open>connect\<close> does; no sequence of events makes the event stream emit a
  key \<open>server.socket.lookup\<close>; and a socket whose \<open>lookup\<close> and \<open>connect\<close> events both fire
  emits \<open>server.socket.connect\<close> twice.
\<close>
theorem lookup_emits_connect:
  "snd (on_event en srv options st (OnSocket s Lookup))
     = map (\<lambda>captured. (''server.socket.connect'', captured)) (registered st (sock_ref s))
   \<and> snd (on_event en srv options st (OnSocket s Lookup))
       = snd (on_event en srv options st (OnSocket s Connect))
   \<and> ''server.socket.lookup'' \<notin> fst ` set (snd (run en srv options st tr))
   \<and> snd (run en srv options initial_stream
        [Connection s, OnSocket (s\<lparr>bytesRead := r1, bytesWritten := w1\<rparr>) Lookup,
         OnSocket (s\<lparr>bytesRead := r2, bytesWritten := w2\<rparr>) Connect])
       = [(''server.socket.new'', SocketProperties (Some 1) (byteSize en (bytesRead s)) (byteSize en (bytesWritten s))),
          (''server.socket.connect'', SocketProperties (Some 1) (byteSize en (bytesRead s)) (byteSize en (bytesWritten s))),
          (''server.socket.connect'', SocketProperties (Some 1) (byteSize en (bytesRead s)) (byteSize en (bytesWritten s)))]"
proof -
  have k: "fst (socket_listener en st' s' c ev) \<noteq> ''server.socket.lookup''" for st' s' c ev
    by (cases ev) simp_all
  have o: "''server.socket.lookup'' \<notin> fst ` set (snd (on_event en srv options st' e))" for st' e
    by (cases e) (auto simp: Let_def k k [THEN not_sym])
  have t: "''server.socket.lookup'' \<notin> fst ` set (snd (run en srv options st tr))"
  proof (induction tr arbitrary: st)
    case Nil
    then show ?case by simp
  next
    case (Cons e es)
    obtain st1 out1 where e: "on_event en srv options st e = (st1, out1)" by fastforce
    obtain st2 out2 where r: "run en srv options st1 es = (st2, out2)" by fastforce
    have "''server.socket.lookup'' \<notin> fst ` set out1" using o [of st e] e by simp
    moreover have "''server.socket.lookup'' \<notin> fst ` set out2" using Cons.IH [of st1] r by simp
    ultimately show ?case using e r by (simp add: image_Un)
  qed
  have x: "snd (run en srv options initial_stream
        [Connection s, OnSocket (s\<lparr>bytesRead := r1, bytesWritten := w1\<rparr>) Lookup,
         OnSocket (s\<lparr>bytesRead := r2, bytesWritten := w2\<rparr>) Connect])
       = [(''server.socket.new'', SocketProperties (Some 1) (byteSize en (bytesRead s)) (byteSize en (bytesWritten s))),
          (''server.socket.connect'', SocketProperties (Some 1) (byteSize en (bytesRead s)) (byteSize en (bytesWritten s))),
          (''server.socket.connect'', SocketProperties (Some 1) (byteSize en (bytesRead s)) (byteSize en (bytesWritten s)))]"
    by (simp add: initial_stream_def Let_def socketProperties_def)
  show ?thesis using t x by simp
qed

text \<open>One socket: its delivery, a lookup and a connect.\<close>
theorem lookup_emits_connect_witness:
  "snd (run example_env plain_server default_options initial_stream
        [Connection \<lparr>sock_ref = 3, bytesRead = 0, bytesWritten = 0\<rparr>,
         OnSocket \<lparr>sock_ref = 3, bytesRead = 0, bytesWritten = 0\<rparr> Lookup,
         OnSocket \<lparr>sock_ref = 3, bytesRead = 0, bytesWritten = 0\<rparr> Connect])
   = [(''server.socket.new'', SocketProperties (Some 1) ''0 B'' ''0 B''),
      (''server.socket.connect'', SocketProperties (Some 1) ''0 B'' ''0 B''),
      (''server.socket.connect'', SocketProperties (Some 1) ''0 B'' ''0 B'')]"
proof -
  have b: "byteSize example_env 0 = ''0 B''"
    by (simp add: example_env_def string_of_nat.simps)
  show ?thesis
    using lookup_emits_connect [of example_env plain_server default_options initial_stream
        "\<lparr>sock_ref = 3, bytesRead = 0, bytesWritten = 0\<rparr>" "[]" 0 0 0 0] b
    by simp
qed

text \<open>The listeners that read the counters of \<open>this\<close> when they run.\<close>

lemma socket_listener_fresh:
  "ev \<in> {Data, Drain, Timeout, SocketClose} \<Longrightarrow>
     snd (socket_listener en st s captured ev) =
       SocketProperties (socket_ids st (sock_ref s))
         (byteSize en (bytesRead s)) (byteSize en (bytesWritten s))"
  by (auto simp: socketProperties_def)

text \<open>
  Claim C3 says that the payload of every monitored socket event is computed from the
  counters of the socket when the event fires. The listeners of \<open>data\<close>, \<open>drain\<close>,
  \<open>timeout\<close> and \<open>close\<close> do that (lemma \<open>socket_listener_fresh\<close>). The listeners of
  \<open>connect\<close> and \<open>end\<close> emit the payload that was computed when the socket was delivered:
  a socket that arrives with both counters 0 and ends with counters 1024 and 2048 emits
  \<open>server.socket.end\<close> with the byte sizes of 0 and 0.
\<close>
theorem socket_end_payload_from_connection_time:
  "snd (run en srv options initial_stream
      [Connection \<lparr>sock_ref = 7, bytesRead = 0, bytesWritten = 0\<rparr>,
       OnSocket \<lparr>sock_ref = 7, bytesRead = 1024, bytesWritten = 2048\<rparr> Data,
       OnSocket \<lparr>sock_ref = 7, bytesRead = 1024, bytesWritten = 2048\<rparr> End])
   = [(''server.socket.new'', SocketProperties (Some 1) (byteSize en 0) (byteSize en 0)),
      (''server.socket.data'', SocketProperties (Some 1) (byteSize en 1024) (byteSize en 2048)),
      (''server.socket.end'', SocketProperties (Some 1) (byteSize en 0) (byteSize en 0))]"
  by (simp add: initial_stream_def Let_def socketProperties_def)

lemma string_of_int_9000: "string_of_int 9000 = ''9000''"
  by (simp add: string_of_int_def string_of_nat.simps)

lemma string_of_int_8000: "string_of_int 8000 = ''8000''"
  by (simp add: string_of_int_def string_of_nat.simps)

text \<open>
  Claim C7. On \<open>listening\<close> the event stream emits one event \<open>server.listening\<close> whose
  value is a list of URLs. With a hostname configured (a non-empty string) the list is
  the one URL \<open>scheme://hostname:port\<close>; otherwise it has one URL \<open>scheme://address:port\<close> for
  each address of \<open>util.getIPList()\<close>, in order. The scheme is \<open>https\<close> if \<open>server.addContext\<close>
  is defined and \<open>http\<close> otherwise.
\<close>
theorem listening_payload_urls:
  "snd (on_event en srv options st Listening) = [(''server.listening'', IpList (ipList en srv options))]
   \<and> (hostname options = Some h \<and> h \<noteq> [] \<longrightarrow>
        ipList en srv options =
          [(if addContext srv then ''https'' else ''http'') @ ''://'' @ h @ '':''
             @ string_of_int (port options)])
   \<and> (\<not> truthy (hostname options) \<longrightarrow>
        ipList en srv options =
          map (\<lambda>address. (if addContext srv then ''https'' else ''http'') @ ''://'' @ address @ '':''
                 @ string_of_int (port options)) (getIPList en))"
  by (simp add: ipList_def url_def truthy_def)

text \<open>
  A TLS server on \<open>localhost\<close>, port 9000; a plain server on port 8000 with the
  interfaces 10.0.0.1 and 192.168.1.1.
\<close>
theorem listening_payload_urls_witness:
  "snd (on_event example_env tls_server
          (default_options\<lparr>hostname := Some ''localhost'', port := 9000\<rparr>) initial_stream Listening)
     = [(''server.listening'', IpList [''https://localhost:9000''])]
   \<and> snd (on_event example_env plain_server default_options initial_stream Listening)
     = [(''server.listening'', IpList [''http://10.0.0.1:8000'', ''http://192.168.1.1:8000''])]"
proof -
  let ?o1 = "default_options\<lparr>hostname := Some ''localhost'', port := 9000\<rparr>"
  have h1: "hostname ?o1 = Some ''localhost'' \<and> ''localhost'' \<noteq> []" by simp
  have h2: "\<not> truthy (hostname default_options)" by (simp add: default_options_def truthy_def)
  have a: "ipList example_env tls_server ?o1 = [''https://localhost:9000'']"
    using listening_payload_urls [of example_env tls_server ?o1 initial_stream "''localhost''"] h1
    by (simp add: tls_server_def string_of_int_9000)
  have b: "ipList example_env plain_server default_options
             = [''http://10.0.0.1:8000'', ''http://192.168.1.1:8000'']"
    using listening_payload_urls [of example_env plain_server default_options initial_stream "[]"] h2
    by (simp add: plain_server_def example_env_def default_options_def string_of_int_8000)
  show ?thesis
    using listening_payload_urls [of example_env tls_server ?o1 initial_stream "[]"]
      listening_payload_urls [of example_env plain_server default_options initial_stream "[]"] a b
    by simp
qed

section \<open>Propagation\<close>

lemma call_listeners_append:
  "call_listeners n ls (xs @ ys) ev =
     (case call_listeners n ls xs ev of
        None \<Rightarrow> None
      | Some a \<Rightarrow> (case call_listeners n ls ys ev of None \<Rightarrow> None | Some b \<Rightarrow> Some (a @ b)))"
proof (induction xs)
  case Nil
  then show ?case by (simp split: option.splits)
next
  case (Cons l xs)
  then show ?case by (cases l) (simp_all split: option.splits)
qed

lemma emit_all_single:
  fixes evs :: "(string \<times> 'v) list"
  assumes "\<And>ev :: string \<times> 'v. emit n ls e ev = Some [(ob, ev)]"
  shows "emit_all n ls e evs = Some (map (Pair ob) evs)"
proof (induction evs)
  case Nil
  then show ?case by simp
next
  case (Cons ev evs)
  then show ?case using assms [of ev] by simp
qed

text \<open>More fuel does not change a result: the fuel only bounds the depth of the calls.\<close>

lemma emit_fuel_mono:
  fixes ev :: "string \<times> 'v"
  shows "(emit n ls e ev = Some r \<longrightarrow> emit (Suc n) ls e ev = Some r)"
    and "(call_listeners n ls xs ev = Some r \<longrightarrow> call_listeners (Suc n) ls xs ev = Some r)"
proof (induction n ls e ev and n ls xs ev arbitrary: r and r rule: emit_call_listeners.induct)
  case (1 ls e ev)
  then show ?case by simp
next
  case (2 n ls e ev)
  then show ?case by simp
next
  case (3 n ls ev)
  then show ?case by simp
next
  case (4 n ls ob rest ev)
  then show ?case by (auto split: option.splits)
next
  case (5 n ls target rest ev)
  then show ?case by (fastforce split: option.splits)
qed

text \<open>
  Claim C5. After \<open>this.propagate(from)\<close>, an event emitted on \<open>from\<close> is, after the earlier
  listeners of \<open>from\<close> have run, emitted on \<open>this\<close> with the same key and value. A source
  with no other listener, propagated into an aggregator with one observer, delivers a
  sequence of events to the observer once each, unchanged and in the order of emission.
  The same holds through two levels: a source propagated into an aggregator that is
  propagated into an outer aggregator with one observer.
\<close>
theorem propagate_forwards_unchanged:
  fixes ev :: "string \<times> 'v" and evs :: "(string \<times> 'v) list"
  shows "emit (Suc n) (propagate this from ls) from ev =
     (case call_listeners n (propagate this from ls) (ls from) ev of
        None \<Rightarrow> None
      | Some before \<Rightarrow>
          (case emit n (propagate this from ls) this ev of
             None \<Rightarrow> None
           | Some obs \<Rightarrow> Some (before @ obs)))
   \<and> (from \<noteq> this \<and> ls from = [] \<and> ls this = [Observer ob] \<longrightarrow>
        emit_all (Suc (Suc n)) (propagate this from ls) from evs = Some (map (Pair ob) evs))
   \<and> (distinct [from, this, outer] \<and> ls from = [] \<and> ls this = [] \<and> ls outer = [Observer ob] \<longrightarrow>
        emit_all (Suc (Suc (Suc n))) (propagate outer this (propagate this from ls)) from evs
          = Some (map (Pair ob) evs))"
proof -
  have a: "emit (Suc n) (propagate this from ls) from ev =
     (case call_listeners n (propagate this from ls) (ls from) ev of
        None \<Rightarrow> None
      | Some before \<Rightarrow>
          (case emit n (propagate this from ls) this ev of
             None \<Rightarrow> None
           | Some obs \<Rightarrow> Some (before @ obs)))"
    by (simp add: propagate_def call_listeners_append split: option.splits)
  have b: "emit_all (Suc (Suc n)) (propagate this from ls) from evs = Some (map (Pair ob) evs)"
    if "from \<noteq> this" "ls from = []" "ls this = [Observer ob]"
  proof (rule emit_all_single)
    fix ev :: "string \<times> 'v"
    show "emit (Suc (Suc n)) (propagate this from ls) from ev = Some [(ob, ev)]"
      using that by (simp add: propagate_def)
  qed
  have c: "emit_all (Suc (Suc (Suc n))) (propagate outer this (propagate this from ls)) from evs
          = Some (map (Pair ob) evs)"
    if "distinct [from, this, outer]" "ls from = []" "ls this = []" "ls outer = [Observer ob]"
  proof (rule emit_all_single)
    fix ev :: "string \<times> 'v"
    show "emit (Suc (Suc (Suc n))) (propagate outer this (propagate this from ls)) from ev
            = Some [(ob, ev)]"
      using that by (auto simp: propagate_def)
  qed
  show ?thesis using a b c by blast
qed

text \<open>Two events through a chain of two aggregators, and through one.\<close>
theorem propagate_forwards_unchanged_witness:
  "emit_all 3 (propagate 30 20 (propagate 20 10 ((\<lambda>_. [])(30 := [Observer 0])))) 10
     [(''server.socket.new'', SocketProperties (Some 1) ''0 B'' ''0 B''), (''server.close'', Undefined)]
   = Some [(0, ''server.socket.new'', SocketProperties (Some 1) ''0 B'' ''0 B''),
           (0, ''server.close'', Undefined)]
   \<and> emit_all 2 (propagate 20 10 ((\<lambda>_. [])(20 := [Observer 0]))) 10
     [(''server.socket.new'', SocketProperties (Some 1) ''0 B'' ''0 B''), (''server.close'', Undefined)]
   = Some [(0, ''server.socket.new'', SocketProperties (Some 1) ''0 B'' ''0 B''),
           (0, ''server.close'', Undefined)]"
proof -
  let ?evs = "[(''server.socket.new'', SocketProperties (Some 1) ''0 B'' ''0 B''), (''server.close'', Undefined)]"
  let ?l3 = "(\<lambda>_. [])(30 := [Observer 0]) :: listeners"
  let ?l2 = "(\<lambda>_. [])(20 := [Observer 0]) :: listeners"
  have h3: "distinct [10, 20, 30 :: nat] \<and> ?l3 10 = [] \<and> ?l3 20 = [] \<and> ?l3 30 = [Observer 0]"
    by simp
  have h2: "(10::nat) \<noteq> 20 \<and> ?l2 10 = [] \<and> ?l2 20 = [Observer 0]"
    by simp
  have a: "emit_all (Suc (Suc (Suc 0))) (propagate 30 20 (propagate 20 10 ?l3)) 10 ?evs
             = Some (map (Pair 0) ?evs)"
    using propagate_forwards_unchanged [of 0 20 10 ?l3 _ 0 ?evs 30] h3 by blast
  have b: "emit_all (Suc (Suc 0)) (propagate 20 10 ?l2) 10 ?evs = Some (map (Pair 0) ?evs)"
    using propagate_forwards_unchanged [of 0 20 10 ?l2 _ 0 ?evs 30] h2 by blast
  show ?thesis using a b by (simp add: numeral_3_eq_3 numeral_2_eq_2)
qed

section \<open>Startup\<close>

text \<open>What \<open>createServer\<close> and \<open>listen\<close> leave unchanged when they fail.\<close>

lemma createServer_error:
  "selectFactory en options = Inl e \<Longrightarrow> createServer en this options w = (Inl e, w)"
  by (simp add: createServer_def)

lemma createServer_frame:
  "listen_calls (snd (createServer en this options w)) = listen_calls w
   \<and> timers (snd (createServer en this options w)) = timers w"
  by (simp add: createServer_def Let_def split: sum.splits)

lemma createServer_ok_select:
  "fst (createServer en this options w) = Inr srv \<Longrightarrow> \<exists>fac. selectFactory en options = Inr fac"
  by (auto simp: createServer_def Let_def split: sum.splits)

lemma listen_select_error:
  "selectFactory en options = Inl e \<Longrightarrow> listen en this options w = (Inl e, w)"
  by (simp add: listen_def createServer_error)

lemma listen_stack_error:
  assumes "validate_stack en options = Inl e"
  shows "isl (fst (listen en this options w))
    \<and> listen_calls (snd (listen en this options w)) = listen_calls w
    \<and> timers (snd (listen en this options w)) = timers w
    \<and> (fst (createServer en this options w) = Inr srv \<longrightarrow> fst (listen en this options w) = Inl e)"
proof (cases "createServer en this options w")
  case (Pair r w1)
  have f: "listen_calls w1 = listen_calls w" "timers w1 = timers w"
    using createServer_frame [of en this options w] Pair by simp_all
  show ?thesis
  proof (cases r)
    case (Inl e')
    then show ?thesis using Pair f by (simp add: listen_def)
  next
    case (Inr srv0)
    then show ?thesis
      using Pair f assms by (simp add: listen_def Let_def createServerEventStream_def)
  qed
qed

lemma no_listening_on_event:
  "e \<noteq> Listening \<Longrightarrow> ''server.listening'' \<notin> fst ` set (snd (on_event en srv options st e))"
proof (cases e)
  case (OnSocket s ev)
  have k: "fst (socket_listener en st s c ev) \<noteq> ''server.listening''" for c
    by (cases ev) simp_all
  show ?thesis using OnSocket by (auto simp: k k [THEN not_sym])
qed (simp_all add: Let_def)

lemma no_listening_run:
  "Listening \<notin> set tr \<Longrightarrow> ''server.listening'' \<notin> fst ` set (snd (run en srv options st tr))"
proof (induction tr arbitrary: st)
  case Nil
  then show ?case by simp
next
  case (Cons e es)
  obtain st1 out1 where e: "on_event en srv options st e = (st1, out1)" by fastforce
  obtain st2 out2 where r: "run en srv options st1 es = (st2, out2)" by fastforce
  have "''server.listening'' \<notin> fst ` set out1"
    using no_listening_on_event [of e en srv options st] e Cons.prems by auto
  moreover have "''server.listening'' \<notin> fst ` set out2"
    using Cons.IH [of st1] r Cons.prems by simp
  ultimately show ?case using e r by (simp add: image_Un)
qed

text \<open>
  Claim C6. If the validation of \<open>createServer\<close> fails, or the resolution of the middleware
  stack fails, then \<open>listen\<close> returns an error, \<open>server.listen\<close> has not been called and
  the memory timer has not been started. When the factory selection fails, the error is
  its error and the world is unchanged; when the server was created and the stack fails,
  the error is the error of \<open>Stack.from\<close>. The server emits \<open>listening\<close> in answer to a call
  of \<open>server.listen\<close> only, and no other event of the server or of a socket makes the
  event stream emit \<open>server.listening\<close>.
\<close>
theorem listen_validation_failure:
  assumes "selectFactory en options = Inl e \<or> validate_stack en options = Inl e"
  shows "isl (fst (listen en this options w))
    \<and> listen_calls (snd (listen en this options w)) = listen_calls w
    \<and> timers (snd (listen en this options w)) = timers w
    \<and> (selectFactory en options = Inl e \<longrightarrow> listen en this options w = (Inl e, w))
    \<and> ((\<exists>srv. fst (createServer en this options w) = Inr srv) \<longrightarrow>
         fst (listen en this options w) = Inl e)
    \<and> (Listening \<notin> set tr \<longrightarrow>
         ''server.listening'' \<notin> fst ` set (snd (run en srv' options' st tr)))"
proof -
  have t: "Listening \<notin> set tr \<longrightarrow>
         ''server.listening'' \<notin> fst ` set (snd (run en srv' options' st tr))"
    using no_listening_run by blast
  have s: "selectFactory en options = Inl e \<longrightarrow> listen en this options w = (Inl e, w)"
    using listen_select_error by blast
  have c: "(\<exists>srv. fst (createServer en this options w) = Inr srv) \<longrightarrow>
         fst (listen en this options w) = Inl e"
  proof
    assume "\<exists>srv. fst (createServer en this options w) = Inr srv"
    then obtain srv where k: "fst (createServer en this options w) = Inr srv" by blast
    then have "selectFactory en options \<noteq> Inl e"
      using createServer_ok_select [OF k] by auto
    then have "validate_stack en options = Inl e" using assms by blast
    then show "fst (listen en this options w) = Inl e"
      using listen_stack_error [of en options e this w srv] k by blast
  qed
  have g: "isl (fst (listen en this options w))
    \<and> listen_calls (snd (listen en this options w)) = listen_calls w
    \<and> timers (snd (listen en this options w)) = timers w"
  proof (cases "selectFactory en options = Inl e")
    case True
    then show ?thesis by (simp add: listen_select_error)
  next
    case False
    then have "validate_stack en options = Inl e" using assms by blast
    then show ?thesis using listen_stack_error [of en options e this w] by blast
  qed
  show ?thesis using t s c g by blast
qed

text \<open>A certificate without a key, and a middleware that cannot be resolved.\<close>
theorem listen_validation_failure_witness:
  "listen example_env 0 (default_options\<lparr>cert := Some ''cert.pem''\<rparr>) empty_world
     = (Inl key_cert_error, empty_world)
   \<and> fst (listen example_env 0 (default_options\<lparr>stack := StackArray [SpecName ''missing'']\<rparr>) empty_world)
     = Inl (Error ''module not found: missing'')
   \<and> listen_calls (snd (listen example_env 0
        (default_options\<lparr>stack := StackArray [SpecName ''missing'']\<rparr>) empty_world)) = []
   \<and> ''server.listening'' \<notin> fst ` set (snd (run example_env plain_server default_options initial_stream
        [Connection \<lparr>sock_ref = 1, bytesRead = 0, bytesWritten = 0\<rparr>,
         OnSocket \<lparr>sock_ref = 1, bytesRead = 5, bytesWritten = 9\<rparr> End, ServerClose]))"
proof -
  let ?o1 = "default_options\<lparr>cert := Some ''cert.pem''\<rparr>"
  let ?o2 = "default_options\<lparr>stack := StackArray [SpecName ''missing'']\<rparr>"
  let ?tr = "[Connection \<lparr>sock_ref = 1, bytesRead = 0, bytesWritten = 0\<rparr>,
         OnSocket \<lparr>sock_ref = 1, bytesRead = 5, bytesWritten = 9\<rparr> End, ServerClose]"
  have s1: "selectFactory example_env ?o1 = Inl key_cert_error"
    by (simp add: selectFactory_def default_options_def truthy_def)
  have h1: "selectFactory example_env ?o1 = Inl key_cert_error
            \<or> validate_stack example_env ?o1 = Inl key_cert_error"
    using s1 by simp
  have s2: "validate_stack example_env ?o2 = Inl (Error ''module not found: missing'')"
    by (simp add: validate_stack_def example_env_def specs_of_def)
  have h2: "selectFactory example_env ?o2 = Inl (Error ''module not found: missing'')
            \<or> validate_stack example_env ?o2 = Inl (Error ''module not found: missing'')"
    using s2 by simp
  have c2: "\<exists>srv. fst (createServer example_env 0 ?o2 empty_world) = Inr srv"
    by (simp add: createServer_def selectFactory_def default_options_def truthy_def example_env_def
        Let_def)
  have t: "Listening \<notin> set ?tr" by simp
  have a: "listen example_env 0 ?o1 empty_world = (Inl key_cert_error, empty_world)"
    using listen_validation_failure [OF h1, of 0 empty_world ?tr plain_server default_options initial_stream] s1 by blast
  have b: "fst (listen example_env 0 ?o2 empty_world) = Inl (Error ''module not found: missing'')
      \<and> listen_calls (snd (listen example_env 0 ?o2 empty_world)) = listen_calls empty_world
      \<and> ''server.listening'' \<notin> fst ` set (snd (run example_env plain_server default_options
            initial_stream ?tr))"
    using listen_validation_failure [OF h2, of 0 empty_world ?tr plain_server default_options initial_stream] c2 t by blast
  show ?thesis using a b by (simp add: empty_world_def)
qed

lemma selectFactory_Stack_from [simp]:
  "selectFactory (en\<lparr>Stack_from := f\<rparr>) options = selectFactory en options"
  by (simp add: selectFactory_def userFactory_def split: option.splits)

lemma createServer_Stack_from [simp]:
  "createServer (en\<lparr>Stack_from := f\<rparr>) this options w = createServer en this options w"
  by (simp add: createServer_def Let_def split: sum.splits)

lemma validate_stack_validated:
  "stack options = StackValidated ms \<Longrightarrow> validate_stack en options = Inr options"
  by (simp add: validate_stack_def)

lemma validate_stack_result:
  "validate_stack en options = Inr options1 \<Longrightarrow> \<exists>ms. stack options1 = StackValidated ms"
  by (auto simp: validate_stack_def Let_def split: stack_option.splits sum.splits)

text \<open>
  Claim C8. If \<open>options.stack\<close> is an instance of the stack class, the validation of the stack
  returns the options as they are, and \<open>listen\<close> does not depend on \<open>Stack.from\<close>: it
  is not called. The options that a validation returns are returned again as they are by
  another validation, with any collaborators.
\<close>
theorem validated_stack_passes_through:
  "(stack options = StackValidated ms \<longrightarrow>
      validate_stack en options = Inr options
      \<and> listen (en\<lparr>Stack_from := f\<rparr>) this options w = listen en this options w)
   \<and> (validate_stack en options = Inr options1 \<longrightarrow> validate_stack en' options1 = Inr options1)"
proof -
  have a: "validate_stack en options = Inr options
      \<and> listen (en\<lparr>Stack_from := f\<rparr>) this options w = listen en this options w"
    if "stack options = StackValidated ms"
    using that
    by (simp add: validate_stack_validated listen_def Let_def split: prod.splits sum.splits)
  have b: "validate_stack en' options1 = Inr options1" if "validate_stack en options = Inr options1"
    using validate_stack_result [OF that] validate_stack_validated by blast
  show ?thesis using a b by blast
qed

text \<open>A validated stack of two middlewares, with a \<open>Stack.from\<close> that would fail if called.\<close>
theorem validated_stack_passes_through_witness:
  "validate_stack example_env (default_options\<lparr>stack := StackValidated [Middleware 1, Middleware 2]\<rparr>)
     = Inr (default_options\<lparr>stack := StackValidated [Middleware 1, Middleware 2]\<rparr>)
   \<and> listen (example_env\<lparr>Stack_from := (\<lambda>specs options. Inl (Error ''not called''))\<rparr>) 0
        (default_options\<lparr>stack := StackValidated [Middleware 1, Middleware 2]\<rparr>) empty_world
     = listen example_env 0
        (default_options\<lparr>stack := StackValidated [Middleware 1, Middleware 2]\<rparr>) empty_world
   \<and> validate_stack example_env (default_options\<lparr>stack := StackArray [SpecName ''static'']\<rparr>)
     = Inr (default_options\<lparr>stack := StackValidated [Middleware 0]\<rparr>)
   \<and> validate_stack (example_env\<lparr>Stack_from := (\<lambda>specs options. Inl (Error ''not called''))\<rparr>)
        (default_options\<lparr>stack := StackValidated [Middleware 0]\<rparr>)
     = Inr (default_options\<lparr>stack := StackValidated [Middleware 0]\<rparr>)"
proof -
  let ?o = "default_options\<lparr>stack := StackValidated [Middleware 1, Middleware 2]\<rparr>"
  let ?f = "\<lambda>(specs::middleware_spec list) (options::server_options).
              (Inl (Error ''not called'') :: error + middleware list)"
  let ?p = "default_options\<lparr>stack := StackArray [SpecName ''static'']\<rparr>"
  let ?q = "default_options\<lparr>stack := StackValidated [Middleware 0]\<rparr>"
  have h: "stack ?o = StackValidated [Middleware 1, Middleware 2]" by simp
  have v: "validate_stack example_env ?p = Inr ?q"
    by (simp add: validate_stack_def example_env_def specs_of_def)
  have a: "validate_stack example_env ?o = Inr ?o
      \<and> listen (example_env\<lparr>Stack_from := ?f\<rparr>) 0 ?o empty_world = listen example_env 0 ?o empty_world"
    using validated_stack_passes_through [of ?o "[Middleware 1, Middleware 2]" example_env ?f 0 empty_world] h by blast
  have b: "validate_stack (example_env\<lparr>Stack_from := ?f\<rparr>) ?q = Inr ?q"
    using validated_stack_passes_through [of ?p "[]" example_env ?f 0 empty_world ?q "example_env\<lparr>Stack_from := ?f\<rparr>"] v by blast
  show ?thesis using a b v by simp
qed

text \<open>
  Claim C9. When \<open>listen\<close> returns a server, it has started one more timer: the memory
  timer, with an interval of 60000 milliseconds (60 seconds), on which \<open>unref\<close> was called.
  Its callback emits on the \<open>Lws\<close> object the event \<open>process.memoryUsage\<close>, in which \<open>rss\<close>,
  \<open>heapTotal\<close>, \<open>heapUsed\<close> and \<open>external\<close> are the byte-size strings of the numbers that
  \<open>process.memoryUsage()\<close> returned.
\<close>
theorem memory_usage_timer:
  "(fst (listen en this options w) = Inr srv \<longrightarrow>
      timers (snd (listen en this options w)) = timers w @ [memory_timer])
   \<and> interval_ms memory_timer = 60 * 1000
   \<and> unrefd memory_timer
   \<and> memoryUsage_event en m =
       (''process.memoryUsage'',
        MemUsage (byteSize en (rss m)) (byteSize en (heapTotal m)) (byteSize en (heapUsed m))
          (byteSize en (external m)) (other_fields m))
   \<and> (verbose_listeners w' this = [Observer ob] \<longrightarrow>
        memory_timer_callback (Suc n) en this w' m = Some [(ob, memoryUsage_event en m)])"
proof -
  have a: "timers (snd (listen en this options w)) = timers w @ [memory_timer]"
    if "fst (listen en this options w) = Inr srv"
  proof -
    have "timers (snd (createServer en this options w)) = timers w"
      using createServer_frame by blast
    then show ?thesis
      using that
      by (auto simp: listen_def Let_def createServerEventStream_def split: prod.splits sum.splits)
  qed
  have b: "memory_timer_callback (Suc n) en this w' m = Some [(ob, memoryUsage_event en m)]"
    if "verbose_listeners w' this = [Observer ob]"
    using that by (simp add: memory_timer_callback_def)
  show ?thesis using a b by (simp add: memory_timer_def memoryUsage_event_def)
qed

text \<open>\<open>listen\<close> with the default options.\<close>
theorem memory_usage_timer_witness:
  "timers (snd (listen example_env 0 default_options empty_world)) = [\<lparr>interval_ms = 60000, unrefd = True\<rparr>]
   \<and> listen_calls (snd (listen example_env 0 default_options empty_world)) = [(8000, None)]
   \<and> memory_timer_callback 1 example_env 0
        (empty_world\<lparr>verbose_listeners := (\<lambda>_. [])(0 := [Observer 5])\<rparr>)
        \<lparr>rss = 10, heapTotal = 20, heapUsed = 30, external = 40, other_fields = []\<rparr>
      = Some [(5, ''process.memoryUsage'',
               MemUsage (byteSize example_env 10) (byteSize example_env 20) (byteSize example_env 30)
                 (byteSize example_env 40) [])]"
proof -
  let ?w = "empty_world\<lparr>verbose_listeners := (\<lambda>_. [])(0 := [Observer 5])\<rparr>"
  let ?m = "\<lparr>rss = 10, heapTotal = 20, heapUsed = 30, external = 40, other_fields = []\<rparr>"
  have l: "listen example_env 0 default_options empty_world =
      (Inr plain_server,
       empty_world\<lparr>verbose_listeners := (\<lambda>_. [])(1 := [Forward 0], 2 := [Forward 0], 3 := [Forward 0]),
         instantiated := [Base], created := [plain_server], stream := Some initial_stream,
         listen_calls := [(8000, None)], timers := [memory_timer]\<rparr>)"
    by (simp add: listen_def createServer_def selectFactory_def default_options_def truthy_def
        example_env_def Let_def validate_stack_def specs_of_def stack_of_def tune_def
        createServerEventStream_def propagate_def factory_emitter_def server_emitter_def
        stack_emitter_def empty_world_def plain_server_def)
  have h1: "fst (listen example_env 0 default_options empty_world) = Inr plain_server"
    using l by simp
  have h2: "verbose_listeners ?w 0 = [Observer 5]" by simp
  have "timers (snd (listen example_env 0 default_options empty_world)) = timers empty_world @ [memory_timer]
     \<and> memory_timer_callback (Suc 0) example_env 0 ?w ?m = Some [(5, memoryUsage_event example_env ?m)]"
    using memory_usage_timer [of example_env 0 default_options empty_world plain_server ?m ?w 5 0] h1 h2 by blast
  then show ?thesis
    using l by (simp add: memory_timer_def memoryUsage_event_def empty_world_def)
qed

end
